theory Spec2Isabelle
  imports Main "HOL-Library.Sublist"
begin

section \<open>Data model (types.ts and the objects the service handles)\<close>

datatype AspectRatio = Landscape_16_9 | Portrait_9_16

text \<open>
  \<^verbatim>\<open>GenerationState = 'idle' | 'loading' | 'polling' | 'success' | 'error' | 'selecting_key'\<close>.
  The constructors are capitalised: \<open>error\<close> is also a state variable of the component.
\<close>

datatype GenerationState = Idle | Loading | Polling | Success | Error | Selecting_key

text \<open>
  A thrown JavaScript value, as far as the code looks at it: its \<open>message\<close> property,
  \<open>None\<close> when the property is undefined (the code reads it with \<^verbatim>\<open>e.message?.\<close>
  and \<^verbatim>\<open>e.message || ...\<close>).
\<close>

datatype JsError = JsError (message: "string option")

text \<open>
  A \<^verbatim>\<open>File\<close>: its MIME type and what \<^verbatim>\<open>FileReader.readAsDataURL\<close> leaves in
  \<^verbatim>\<open>reader.result\<close> when \<^verbatim>\<open>onloadend\<close> fires: a string, or \<open>None\<close> for a result that
  is not a string.
\<close>

record File =
  file_type :: string
  reader_result :: "string option"

type_synonym Blob = string

text \<open>The remote operation: \<^verbatim>\<open>done\<close>, \<^verbatim>\<open>error\<close> and
  \<^verbatim>\<open>response?.generatedVideos?.[0]?.video?.uri\<close>, every optional level kept.\<close>

datatype OperationError = OperationError (error_message: "string option")

record Video =
  uri :: "string option"

record GeneratedVideo =
  video :: "Video option"

record GenerateVideosResponse =
  generatedVideos :: "GeneratedVideo list option"

record Operation =
  op_name :: string
  op_done :: bool
  op_error :: "OperationError option"
  op_response :: "GenerateVideosResponse option"

text \<open>The argument of \<^verbatim>\<open>ai.models.generateVideos\<close>.\<close>

record GenerateVideosParams =
  p_model :: string
  p_prompt :: string
  p_imageBytes :: string
  p_mimeType :: string
  p_numberOfVideos :: nat
  p_resolution :: string
  p_aspectRatio :: AspectRatio

text \<open>The \<^verbatim>\<open>Response\<close> of \<^verbatim>\<open>fetch\<close>: \<^verbatim>\<open>ok\<close>, \<^verbatim>\<open>status\<close>, \<^verbatim>\<open>statusText\<close>, and
  what \<^verbatim>\<open>text()\<close> and \<^verbatim>\<open>blob()\<close> resolve to.\<close>

record HttpResponse =
  resp_ok :: bool
  resp_status :: nat
  resp_statusText :: string
  resp_text :: string
  resp_blob :: Blob

text \<open>
  The collaborators outside the repository, as the values their calls produce. A rejected
  promise is \<open>Inl\<close>. \<open>getVideosOperation k operation\<close> is the answer to the \<open>k\<close>-th
  status query of a run (counted from 0), made with the handle \<open>operation\<close>.
\<close>

record Env =
  api_key :: "string option"
  generateVideos :: "GenerateVideosParams \<Rightarrow> JsError + Operation"
  getVideosOperation :: "nat \<Rightarrow> Operation \<Rightarrow> JsError + Operation"
  fetch :: "string \<Rightarrow> JsError + HttpResponse"
  createObjectURL :: "Blob \<Rightarrow> string"
  hasSelectedApiKey :: "JsError + bool"
  openSelectKey :: "JsError + unit"

text \<open>The nine \<^verbatim>\<open>useState\<close> variables of \<^verbatim>\<open>App\<close>; \<open>apiKeySelected\<close> is
  \<^verbatim>\<open>boolean | null\<close>.\<close>

record AppState =
  imageFile :: "File option"
  imagePreview :: "string option"
  script :: string
  aspectRatio :: AspectRatio
  generationState :: GenerationState
  videoUrl :: "string option"
  error :: "string option"
  loadingMessage :: string
  apiKeySelected :: "bool option"

section \<open>JavaScript string helpers\<close>

text \<open>\<^verbatim>\<open>hay.includes(needle)\<close>: \<open>needle\<close> occurs in \<open>hay\<close> as a contiguous run.\<close>

fun str_includes :: "string \<Rightarrow> string \<Rightarrow> bool" where
  "str_includes [] needle = (needle = [])"
| "str_includes (c # cs) needle = (prefix needle (c # cs) \<or> str_includes cs needle)"

text \<open>\<^verbatim>\<open>s.split(c)\<close> for a one-character separator.\<close>

fun split_on :: "char \<Rightarrow> string \<Rightarrow> string list" where
  "split_on c [] = [] # []"
| "split_on c (x # xs) =
     (if x = c then [] # split_on c xs
      else (case split_on c xs of [] \<Rightarrow> [x] # [] | h # t \<Rightarrow> (x # h) # t))"

text \<open>\<^verbatim>\<open>xs[i]\<close>: undefined out of range.\<close>

definition at_index :: "'a list \<Rightarrow> nat \<Rightarrow> 'a option" where
  "at_index xs i = (if i < length xs then Some (xs ! i) else None)"

text \<open>A value inside a template literal: undefined prints as \<^verbatim>\<open>undefined\<close>.\<close>

definition js_string :: "string option \<Rightarrow> string" where
  "js_string v = (case v of None \<Rightarrow> ''undefined'' | Some s \<Rightarrow> s)"

text \<open>Truthiness of a string that may be undefined.\<close>

definition truthy :: "string option \<Rightarrow> bool" where
  "truthy v = (case v of None \<Rightarrow> False | Some s \<Rightarrow> s \<noteq> [])"

section \<open>The generation pipeline (services/geminiService)\<close>

text \<open>The errors the service throws, each a \<^verbatim>\<open>new Error(message)\<close>.\<close>

definition ApiKeyError :: JsError where
  "ApiKeyError = JsError (Some ''API_KEY_ERROR'')"

definition EncodingError :: JsError where
  "EncodingError = JsError (Some ''Failed to convert image to base64.'')"

definition GenerationError :: "OperationError \<Rightarrow> JsError" where
  "GenerationError e = JsError (Some (''Video generation failed: '' @ js_string (error_message e)))"

definition MissingResultError :: JsError where
  "MissingResultError = JsError (Some ''Could not retrieve video download link.'')"

definition DownloadError :: "string \<Rightarrow> JsError" where
  "DownloadError statusText = JsError (Some (''Failed to download video: '' @ statusText))"

text \<open>\<^verbatim>\<open>fileToGenerativePart\<close>: the part of the data URL after the first comma, the empty
  string when the reader's result is not a string; paired with the MIME type.\<close>

definition fileToGenerativePart :: "File \<Rightarrow> string option \<times> string" where
  "fileToGenerativePart file =
     ((case reader_result file of
         Some r \<Rightarrow> at_index (split_on CHR '','' r) 1
       | None \<Rightarrow> Some []),
      file_type file)"

text \<open>
  What a run has emitted so far: the progress labels passed to \<^verbatim>\<open>onProgress\<close>, in order,
  and the milliseconds spent in \<^verbatim>\<open>setTimeout\<close>.
\<close>

type_synonym Log = "string list \<times> nat"

definition onProgress :: "string \<Rightarrow> Log \<Rightarrow> Log" where
  "onProgress m log = (fst log @ [m], snd log)"

definition wait_ms :: "nat \<Rightarrow> Log \<Rightarrow> Log" where
  "wait_ms d log = (fst log, snd log + d)"

text \<open>
  The poll loop, lines 57 to 68. It has no iteration cap, so it is a partial function:
  \<open>None\<close> is a loop that never ends. \<open>k\<close> counts the status queries made so far.
\<close>

partial_function (option) poll_loop ::
  "(nat \<Rightarrow> Operation \<Rightarrow> JsError + Operation) \<Rightarrow> nat \<Rightarrow> Operation \<Rightarrow> Log
     \<Rightarrow> (Log \<times> (JsError + Operation)) option" where
  "poll_loop query k operation log =
     (if \<not> op_done operation then
        (let log' = onProgress ''Still processing... checking status.'' (wait_ms 10000 log)
         in case query k operation of
              Inl e \<Rightarrow>
                (if (case message e of None \<Rightarrow> False
                     | Some m \<Rightarrow> str_includes m ''Requested entity was not found'')
                 then Some (log', Inl ApiKeyError)
                 else Some (log', Inl e))
            | Inr operation' \<Rightarrow> poll_loop query (Suc k) operation' log')
      else Some (log, Inr operation))"

declare poll_loop.simps [code]

text \<open>
  The handle the loop holds when it is about to make status query \<open>n\<close>: the initial
  handle for \<open>n = 0\<close>, then the answer to query \<open>n - 1\<close>, provided the loop got that
  far (every earlier handle was not done and every earlier query was answered).
\<close>

fun polled :: "(nat \<Rightarrow> Operation \<Rightarrow> JsError + Operation) \<Rightarrow> Operation \<Rightarrow> nat \<Rightarrow> Operation option" where
  "polled query op0 0 = Some op0"
| "polled query op0 (Suc n) =
     (case polled query op0 n of
        None \<Rightarrow> None
      | Some operation \<Rightarrow>
          if op_done operation then None
          else (case query n operation of Inl e \<Rightarrow> None | Inr operation' \<Rightarrow> Some operation'))"

text \<open>The log after \<open>n\<close> rounds of the loop: \<open>n\<close> waits of 10 seconds, \<open>n\<close> labels.\<close>

definition poll_log :: "nat \<Rightarrow> Log \<Rightarrow> Log" where
  "poll_log n log =
     (fst log @ replicate n ''Still processing... checking status.'', snd log + n * 10000)"

text \<open>\<^verbatim>\<open>operation.response?.generatedVideos?.[0]?.video?.uri\<close>\<close>

definition downloadLink :: "Operation \<Rightarrow> string option" where
  "downloadLink operation =
     Option.bind (op_response operation) (\<lambda>r.
     Option.bind (generatedVideos r) (\<lambda>vs.
     Option.bind (at_index vs 0) (\<lambda>g.
     Option.bind (video g) uri)))"

text \<open>Lines 70 to 89: what the service does with the operation the loop ended on.\<close>

definition finish_operation :: "Env \<Rightarrow> Operation \<Rightarrow> Log \<Rightarrow> Log \<times> (JsError + string)" where
  "finish_operation env operation log =
     (case op_error operation of
        Some e \<Rightarrow> (log, Inl (GenerationError e))
      | None \<Rightarrow>
         (let log' = onProgress ''Finalizing video...'' log in
          if \<not> truthy (downloadLink operation) then (log', Inl MissingResultError)
          else
            (case fetch env (js_string (downloadLink operation) @ ''&key='' @ js_string (api_key env)) of
               Inl e \<Rightarrow> (log', Inl e)
             | Inr response \<Rightarrow>
                 if \<not> resp_ok response then
                   (if str_includes (resp_text response) ''API key not valid''
                    then (log', Inl ApiKeyError)
                    else (log', Inl (DownloadError (resp_statusText response))))
                 else (log', Inr (createObjectURL env (resp_blob response))))))"

text \<open>The log when the loop is entered: the three labels of lines 34, 41 and 56.\<close>

definition log_before_poll :: Log where
  "log_before_poll =
     ([''Converting image...'', ''Starting video generation...'',
       ''Processing your video... this may take a few minutes.''], 0)"

text \<open>The request of lines 42 to 54.\<close>

definition video_request :: "string \<Rightarrow> string option \<times> string \<Rightarrow> AspectRatio \<Rightarrow> GenerateVideosParams" where
  "video_request prompt imagePart ratio =
     \<lparr>p_model = ''veo-3.1-fast-generate-preview'', p_prompt = prompt,
      p_imageBytes = js_string (fst imagePart), p_mimeType = snd imagePart,
      p_numberOfVideos = 1, p_resolution = ''720p'', p_aspectRatio = ratio\<rparr>"

definition generateVideoFromImage ::
  "Env \<Rightarrow> string \<Rightarrow> File \<Rightarrow> AspectRatio \<Rightarrow> (Log \<times> (JsError + string)) option" where
  "generateVideoFromImage env prompt file ratio =
     (let log1 = onProgress ''Converting image...'' ([], 0);
          imagePart = fileToGenerativePart file
      in if \<not> truthy (fst imagePart) then Some (log1, Inl EncodingError)
         else
           (let log2 = onProgress ''Starting video generation...'' log1 in
            case generateVideos env (video_request prompt imagePart ratio) of
              Inl e \<Rightarrow> Some (log2, Inl e)
            | Inr operation \<Rightarrow>
                (case poll_loop (getVideosOperation env) 0 operation
                        (onProgress ''Processing your video... this may take a few minutes.'' log2) of
                   None \<Rightarrow> None
                 | Some (log3, Inl e) \<Rightarrow> Some (log3, Inl e)
                 | Some (log3, Inr operation') \<Rightarrow> Some (finish_operation env operation' log3))))"

section \<open>The component (App)\<close>

definition initial_state :: AppState where
  "initial_state =
     \<lparr>imageFile = None, imagePreview = None, script = [], aspectRatio = Landscape_16_9,
      generationState = Idle, videoUrl = None, error = None, loadingMessage = [],
      apiKeySelected = None\<rparr>"

definition checkApiKey :: "Env \<Rightarrow> AppState \<Rightarrow> AppState" where
  "checkApiKey env s =
     (case hasSelectedApiKey env of
        Inr hasKey \<Rightarrow>
          s\<lparr>apiKeySelected := Some hasKey,
            generationState := (if \<not> hasKey then Selecting_key else Idle)\<rparr>
      | Inl e \<Rightarrow> s\<lparr>apiKeySelected := Some False, generationState := Selecting_key\<rparr>)"

text \<open>\<^verbatim>\<open>handleImageChange\<close> with the file the input event carries, if any; the preview
  is what the reader yields.\<close>

definition handleImageChange :: "File option \<Rightarrow> AppState \<Rightarrow> AppState" where
  "handleImageChange f s =
     (case f of
        None \<Rightarrow> s
      | Some file \<Rightarrow> s\<lparr>imageFile := Some file, imagePreview := reader_result file, error := None\<rparr>)"

definition setScript :: "string \<Rightarrow> AppState \<Rightarrow> AppState" where
  "setScript v s = s\<lparr>script := v\<rparr>"

definition setAspectRatio :: "AspectRatio \<Rightarrow> AppState \<Rightarrow> AppState" where
  "setAspectRatio r s = s\<lparr>aspectRatio := r\<rparr>"

text \<open>The callback \<^verbatim>\<open>App\<close> gives to \<^verbatim>\<open>ApiKeySelector\<close>, lines 139 to 142.\<close>

definition onKeySelected :: "AppState \<Rightarrow> AppState" where
  "onKeySelected s = s\<lparr>apiKeySelected := Some True, generationState := Idle\<rparr>"

text \<open>\<^verbatim>\<open>handleSelectKey\<close>: a rejected \<^verbatim>\<open>openSelectKey\<close> is logged and nothing changes.\<close>

definition handleSelectKey :: "Env \<Rightarrow> AppState \<Rightarrow> AppState" where
  "handleSelectKey env s =
     (case openSelectKey env of
        Inr u \<Rightarrow> onKeySelected s
      | Inl e \<Rightarrow> s)"

text \<open>The first line of \<^verbatim>\<open>handleSubmit\<close>:
  \<^verbatim>\<open>if (!imageFile || !script || !apiKeySelected) return\<close>.\<close>

definition submit_blocked :: "AppState \<Rightarrow> bool" where
  "submit_blocked s = (imageFile s = None \<or> script s = [] \<or> apiKeySelected s \<noteq> Some True)"

text \<open>Lines 89 to 91, before the service is awaited.\<close>

definition submit_begin :: "AppState \<Rightarrow> AppState" where
  "submit_begin s = s\<lparr>generationState := Loading, error := None, videoUrl := None\<rparr>"

text \<open>Lines 100 to 113: the continuation of the \<^verbatim>\<open>try\<close>, the \<^verbatim>\<open>catch\<close>
  and the \<^verbatim>\<open>finally\<close>.\<close>

definition submit_settle :: "JsError + string \<Rightarrow> AppState \<Rightarrow> AppState" where
  "submit_settle r s =
     (case r of
        Inr url \<Rightarrow> s\<lparr>videoUrl := Some url, generationState := Success\<rparr>
      | Inl e \<Rightarrow>
          if message e = Some ''API_KEY_ERROR'' then
            s\<lparr>error := Some ''Your API Key is invalid or missing permissions. Please select a valid key.'',
              apiKeySelected := Some False, generationState := Selecting_key\<rparr>
          else
            s\<lparr>error := Some (if truthy (message e) then js_string (message e)
                              else ''An unknown error occurred.''),
              generationState := Error\<rparr>)
     \<lparr>loadingMessage := []\<rparr>"

text \<open>
  \<^verbatim>\<open>handleSubmit\<close> as the list of states the component goes through: the state at the
  click, the state after lines 89 to 91, one state for each \<^verbatim>\<open>setLoadingMessage\<close> the
  service makes, and the state after the promise settles. \<open>None\<close> is a run whose poll loop
  never ends.
\<close>

definition handleSubmit_states :: "Env \<Rightarrow> AppState \<Rightarrow> AppState list option" where
  "handleSubmit_states env s =
     (if submit_blocked s then Some [s]
      else
        (case imageFile s of
           None \<Rightarrow> Some [s]
         | Some file \<Rightarrow>
             (case generateVideoFromImage env (script s) file (aspectRatio s) of
                None \<Rightarrow> None
              | Some (log, r) \<Rightarrow>
                  (let steps = map (\<lambda>m. (submit_begin s)\<lparr>loadingMessage := m\<rparr>) (fst log)
                   in Some (s # submit_begin s # steps
                            @ [submit_settle r (last (submit_begin s # steps))])))))"

definition handleSubmit :: "Env \<Rightarrow> AppState \<Rightarrow> AppState option" where
  "handleSubmit env s = map_option last (handleSubmit_states env s)"

definition resetState :: "AppState \<Rightarrow> AppState" where
  "resetState s =
     s\<lparr>imageFile := None, imagePreview := None, script := [], videoUrl := None, error := None,
       generationState := (if apiKeySelected s = Some True then Idle else Selecting_key)\<rparr>"

text \<open>What the render shows of the trigger: the form is rendered only under
  \<^verbatim>\<open>apiKeySelected &&\<close>, and the button carries
  \<^verbatim>\<open>disabled={!imageFile || !script || isGenerating}\<close>.\<close>

definition isGenerating :: "AppState \<Rightarrow> bool" where
  "isGenerating s = (generationState s = Loading \<or> generationState s = Polling)"

definition isFormDisabled :: "AppState \<Rightarrow> bool" where
  "isFormDisabled s = (isGenerating s \<or> apiKeySelected s \<noteq> Some True)"

definition form_rendered :: "AppState \<Rightarrow> bool" where
  "form_rendered s = (apiKeySelected s = Some True)"

definition submit_disabled :: "AppState \<Rightarrow> bool" where
  "submit_disabled s = (imageFile s = None \<or> script s = [] \<or> isGenerating s)"

text \<open>The trigger can be activated: it is on the page and not disabled.\<close>

definition submit_enabled :: "AppState \<Rightarrow> bool" where
  "submit_enabled s = (form_rendered s \<and> \<not> submit_disabled s)"

section \<open>Sample inputs\<close>

definition sample_file :: File where
  "sample_file = \<lparr>file_type = ''image/jpeg'', reader_result = Some ''data:image/jpeg;base64,QUJD''\<rparr>"

definition sample_state :: AppState where
  "sample_state =
     \<lparr>imageFile = Some sample_file, imagePreview = Some ''data:image/jpeg;base64,QUJD'',
      script = ''A cinematic shot of this object on a beach at sunset.'',
      aspectRatio = Portrait_9_16, generationState = Idle, videoUrl = None, error = None,
      loadingMessage = [], apiKeySelected = Some True\<rparr>"

definition pending_operation :: Operation where
  "pending_operation =
     \<lparr>op_name = ''operations/1'', op_done = False, op_error = None, op_response = None\<rparr>"

definition finished_operation :: Operation where
  "finished_operation =
     \<lparr>op_name = ''operations/1'', op_done = True, op_error = None,
      op_response = Some \<lparr>generatedVideos =
        Some [\<lparr>video = Some \<lparr>uri = Some ''https://videos.example/1?alt=media''\<rparr>\<rparr>]\<rparr>\<rparr>"

definition failed_operation :: Operation where
  "failed_operation =
     \<lparr>op_name = ''operations/1'', op_done = True,
      op_error = Some (OperationError (Some ''quota exceeded'')), op_response = None\<rparr>"

definition empty_operation :: Operation where
  "empty_operation =
     \<lparr>op_name = ''operations/1'', op_done = True, op_error = None,
      op_response = Some \<lparr>generatedVideos = Some []\<rparr>\<rparr>"

text \<open>A remote that answers every status query with the handle \<open>d\<close>.\<close>

definition answers_with :: "Operation \<Rightarrow> nat \<Rightarrow> Operation \<Rightarrow> JsError + Operation" where
  "answers_with d k operation = Inr d"

text \<open>A done operation that carries an error payload and a download URI.\<close>

definition conflicting_operation :: Operation where
  "conflicting_operation =
     \<lparr>op_name = ''operations/1'', op_done = True,
      op_error = Some (OperationError (Some ''quota exceeded'')),
      op_response = Some \<lparr>generatedVideos =
        Some [\<lparr>video = Some \<lparr>uri = Some ''https://videos.example/1?alt=media''\<rparr>\<rparr>]\<rparr>\<rparr>"

definition video_response :: HttpResponse where
  "video_response =
     \<lparr>resp_ok = True, resp_status = 200, resp_statusText = ''OK'', resp_text = ''bytes'',
      resp_blob = ''bytes''\<rparr>"

definition forbidden_response :: HttpResponse where
  "forbidden_response =
     \<lparr>resp_ok = False, resp_status = 403, resp_statusText = ''Forbidden'',
      resp_text = ''quota'', resp_blob = []\<rparr>"

definition invalid_key_response :: HttpResponse where
  "invalid_key_response =
     \<lparr>resp_ok = False, resp_status = 400, resp_statusText = ''Bad Request'',
      resp_text = ''API key not valid. Please pass a valid API key.'', resp_blob = []\<rparr>"

text \<open>A remote that answers the first status query with a pending handle and the second
  with the finished one, and serves the video.\<close>

definition sample_env :: Env where
  "sample_env =
     \<lparr>api_key = Some ''k'',
      generateVideos = (\<lambda>p. Inr pending_operation),
      getVideosOperation = (\<lambda>k operation. if k = 0 then Inr pending_operation else Inr finished_operation),
      fetch = (\<lambda>url. Inr video_response),
      createObjectURL = (\<lambda>b. ''blob:1''),
      hasSelectedApiKey = Inr True,
      openSelectKey = Inr ()\<rparr>"

definition not_found_error :: JsError where
  "not_found_error = JsError (Some ''404: Requested entity was not found.'')"

section \<open>The poll loop\<close>

lemma poll_log_Suc:
  "onProgress ''Still processing... checking status.'' (wait_ms 10000 (poll_log n log)) = poll_log (Suc n) log"
  by (simp add: onProgress_def wait_ms_def poll_log_def replicate_append_same)

lemma poll_loop_polled:
  "polled query op0 n = Some operation \<Longrightarrow>
   poll_loop query 0 op0 log = poll_loop query n operation (poll_log n log)"
proof (induction n arbitrary: operation)
  case 0
  then show ?case by (simp add: poll_log_def)
next
  case (Suc n)
  from Suc.prems obtain prev where
    prev: "polled query op0 n = Some prev" "\<not> op_done prev" "query n prev = Inr operation"
    by (auto split: option.splits if_splits sum.splits)
  have "poll_loop query 0 op0 log = poll_loop query n prev (poll_log n log)"
    using Suc.IH prev(1) by simp
  also have "\<dots> = poll_loop query (Suc n) operation (poll_log (Suc n) log)"
    using prev(2,3) by (subst poll_loop.simps) (simp add: poll_log_Suc del: polled.simps)
  finally show ?case .
qed

lemma poll_loop_done:
  "op_done operation \<Longrightarrow> poll_loop query k operation log = Some (log, Inr operation)"
  by (subst poll_loop.simps) simp

lemma poll_loop_raise:
  "\<not> op_done operation \<Longrightarrow> query k operation = Inl e \<Longrightarrow>
   poll_loop query k operation log =
     Some (poll_log 1 log,
           Inl (if (case message e of None \<Rightarrow> False
                    | Some m \<Rightarrow> str_includes m ''Requested entity was not found'')
                then ApiKeyError else e))"
  by (subst poll_loop.simps) (simp add: poll_log_def onProgress_def wait_ms_def)

lemma poll_loop_exit_done:
  assumes "polled query op0 n = Some operation" "op_done operation"
  shows "poll_loop query 0 op0 log = Some (poll_log n log, Inr operation)"
  using poll_loop_polled [OF assms(1)] poll_loop_done [OF assms(2)] by simp

lemma poll_loop_exit_raise:
  assumes "polled query op0 n = Some operation" "\<not> op_done operation"
    "query n operation = Inl e"
  shows "poll_loop query 0 op0 log =
     Some (poll_log (Suc n) log,
           Inl (if (case message e of None \<Rightarrow> False
                    | Some m \<Rightarrow> str_includes m ''Requested entity was not found'')
                then ApiKeyError else e))"
proof -
  have "poll_log 1 (poll_log n log) = poll_log (Suc n) log"
    by (simp add: poll_log_def replicate_append_same)
  then show ?thesis
    using poll_loop_polled [OF assms(1), of log] poll_loop_raise [where query = query and k = n and log = "poll_log n log", OF assms(2,3)]
    by simp
qed

text \<open>An operation the loop returns is done.\<close>

lemma poll_loop_returns_done:
  assumes "poll_loop query k operation log = Some (log', Inr d)"
  shows "op_done d"
proof -
  have "case snd y of Inl e \<Rightarrow> True | Inr d \<Rightarrow> op_done d"
    if run: "poll_loop query k operation log = Some y" for y
  proof (rule poll_loop.raw_induct
      [where P = "\<lambda>q k operation log y. case snd y of Inl e \<Rightarrow> True | Inr d \<Rightarrow> op_done d", OF _ run])
    fix f q k operation log y
    assume IH: "\<And>q k operation log y. f q k operation log = Some y
                  \<Longrightarrow> case snd y of Inl e \<Rightarrow> True | Inr d \<Rightarrow> op_done d"
      and body: "(if \<not> op_done operation
      then let log' = onProgress ''Still processing... checking status.'' (wait_ms 10000 log)
           in case q k operation of
              Inl e \<Rightarrow>
                if case message e of None \<Rightarrow> False
                   | Some m \<Rightarrow> str_includes m ''Requested entity was not found''
                then Some (log', Inl ApiKeyError) else Some (log', Inl e)
              | Inr operation' \<Rightarrow> f q (Suc k) operation' log'
      else Some (log, Inr operation)) = Some y"
    show "case snd y of Inl e \<Rightarrow> True | Inr d \<Rightarrow> op_done d"
    proof (cases "op_done operation")
      case True
      with body show ?thesis by auto
    next
      case False
      show ?thesis
      proof (cases "q k operation")
        case (Inl e)
        with False body show ?thesis by (auto simp: Let_def split: if_splits)
      next
        case (Inr operation')
        with False body have "f q (Suc k) operation'
            (onProgress ''Still processing... checking status.'' (wait_ms 10000 log)) = Some y"
          by (simp add: Let_def)
        then show ?thesis by (rule IH)
      qed
    qed
  qed
  from this [OF assms] show ?thesis by simp
qed

lemma polled_shift:
  assumes "\<not> op_done operation" "query 0 operation = Inr operation'"
  shows "polled query operation (Suc n) = polled (\<lambda>i. query (Suc i)) operation' n"
  using assms by (induction n) simp_all

text \<open>The loop returns only if some handle is done or some query is rejected: there is
  no other exit and no cap on the number of rounds.\<close>

lemma poll_loop_returns_stops:
  assumes run: "poll_loop query k operation log = Some y"
  shows "\<exists>n d. polled (\<lambda>i. query (k + i)) operation n = Some d
           \<and> (op_done d \<or> (\<exists>e. query (k + n) d = Inl e))"
proof (rule poll_loop.raw_induct
    [where P = "\<lambda>q k operation log y. \<exists>n d. polled (\<lambda>i. q (k + i)) operation n = Some d
           \<and> (op_done d \<or> (\<exists>e. q (k + n) d = Inl e))", OF _ run])
  fix f q k operation log y
  assume IH: "\<And>q k operation log y. f q k operation log = Some y
                \<Longrightarrow> \<exists>n d. polled (\<lambda>i. q (k + i)) operation n = Some d
                      \<and> (op_done d \<or> (\<exists>e. q (k + n) d = Inl e))"
    and body: "(if \<not> op_done operation
      then let log' = onProgress ''Still processing... checking status.'' (wait_ms 10000 log)
           in case q k operation of
              Inl e \<Rightarrow>
                if case message e of None \<Rightarrow> False
                   | Some m \<Rightarrow> str_includes m ''Requested entity was not found''
                then Some (log', Inl ApiKeyError) else Some (log', Inl e)
              | Inr operation' \<Rightarrow> f q (Suc k) operation' log'
      else Some (log, Inr operation)) = Some y"
  show "\<exists>n d. polled (\<lambda>i. q (k + i)) operation n = Some d
           \<and> (op_done d \<or> (\<exists>e. q (k + n) d = Inl e))"
  proof (cases "op_done operation")
    case True
    then have "polled (\<lambda>i. q (k + i)) operation 0 = Some operation \<and> op_done operation"
      by simp
    then show ?thesis by blast
  next
    case False
    show ?thesis
    proof (cases "q k operation")
      case (Inl e)
      then have "polled (\<lambda>i. q (k + i)) operation 0 = Some operation
          \<and> (\<exists>e. q (k + 0) operation = Inl e)"
        by simp
      then show ?thesis by blast
    next
      case (Inr operation')
      with False body have "f q (Suc k) operation'
          (onProgress ''Still processing... checking status.'' (wait_ms 10000 log)) = Some y"
        by (simp add: Let_def)
      from IH [OF this] obtain n d where
        nd: "polled (\<lambda>i. q (Suc k + i)) operation' n = Some d"
          "op_done d \<or> (\<exists>e. q (Suc k + n) d = Inl e)"
        by blast
      have "polled (\<lambda>i. q (k + i)) operation (Suc n) = polled (\<lambda>i. q (k + Suc i)) operation' n"
        using False Inr by (intro polled_shift) simp_all
      with nd have "polled (\<lambda>i. q (k + i)) operation (Suc n) = Some d
          \<and> (op_done d \<or> (\<exists>e. q (k + Suc n) d = Inl e))"
        by simp
      then show ?thesis by blast
    qed
  qed
qed

lemma poll_loop_returns_iff:
  "(\<exists>y. poll_loop query 0 op0 log = Some y) \<longleftrightarrow>
   (\<exists>n d. polled query op0 n = Some d \<and> (op_done d \<or> (\<exists>e. query n d = Inl e)))"
proof
  assume "\<exists>y. poll_loop query 0 op0 log = Some y"
  then obtain y where "poll_loop query 0 op0 log = Some y" ..
  from poll_loop_returns_stops [OF this] show
    "\<exists>n d. polled query op0 n = Some d \<and> (op_done d \<or> (\<exists>e. query n d = Inl e))"
    by simp
next
  assume "\<exists>n d. polled query op0 n = Some d \<and> (op_done d \<or> (\<exists>e. query n d = Inl e))"
  then obtain n d where nd: "polled query op0 n = Some d"
    "op_done d \<or> (\<exists>e. query n d = Inl e)" by blast
  show "\<exists>y. poll_loop query 0 op0 log = Some y"
  proof (cases "op_done d")
    case True
    from poll_loop_exit_done [OF nd(1) True] show ?thesis by blast
  next
    case False
    with nd(2) obtain e where "query n d = Inl e" by blast
    from poll_loop_exit_raise [OF nd(1) False this] show ?thesis by blast
  qed
qed

section \<open>The service and the handlers\<close>

text \<open>\<open>str_includes\<close> is the contiguous-sublist relation of the library.\<close>

lemma str_includes_sublist: "str_includes hay needle = sublist needle hay"
  by (induction hay) (auto simp: sublist_Cons_right)

lemma generate_polls:
  assumes "truthy (fst (fileToGenerativePart file))"
    "generateVideos env (video_request prompt (fileToGenerativePart file) ratio) = Inr op0"
  shows "generateVideoFromImage env prompt file ratio =
     (case poll_loop (getVideosOperation env) 0 op0 log_before_poll of
        None \<Rightarrow> None
      | Some (log3, Inl e) \<Rightarrow> Some (log3, Inl e)
      | Some (log3, Inr operation') \<Rightarrow> Some (finish_operation env operation' log3))"
  using assms by (simp add: generateVideoFromImage_def log_before_poll_def onProgress_def)

lemma submit_settle_loadingMessage:
  "submit_settle r (t\<lparr>loadingMessage := m\<rparr>) = submit_settle r t"
  by (cases r) (simp_all add: submit_settle_def)

lemma handleSubmit_states_run:
  assumes "\<not> submit_blocked s" "imageFile s = Some file"
    "generateVideoFromImage env (script s) file (aspectRatio s) = Some (log, r)"
  shows "handleSubmit_states env s =
     Some (s # submit_begin s # map (\<lambda>m. (submit_begin s)\<lparr>loadingMessage := m\<rparr>) (fst log)
           @ [submit_settle r (submit_begin s)])"
  using assms
  by (cases "fst log = []")
     (simp_all add: handleSubmit_states_def last_map submit_settle_loadingMessage)

lemma handleSubmit_settled:
  assumes "\<not> submit_blocked s" "imageFile s = Some file"
    "generateVideoFromImage env (script s) file (aspectRatio s) = Some (log, r)"
  shows "handleSubmit env s = Some (submit_settle r (submit_begin s))"
  using assms
  by (cases "fst log = []")
     (simp_all add: handleSubmit_def handleSubmit_states_def last_map submit_settle_loadingMessage)

lemma generationState_settle:
  "generationState (submit_settle r t) =
     (case r of Inr url \<Rightarrow> Success
      | Inl e \<Rightarrow> if message e = Some ''API_KEY_ERROR'' then Selecting_key else Error)"
  by (cases r) (simp_all add: submit_settle_def)

lemma settle_ApiKeyError:
  "submit_settle (Inl ApiKeyError) (submit_begin s) =
     s\<lparr>generationState := Selecting_key,
       error := Some ''Your API Key is invalid or missing permissions. Please select a valid key.'',
       videoUrl := None, apiKeySelected := Some False, loadingMessage := []\<rparr>"
  by (simp add: submit_settle_def submit_begin_def ApiKeyError_def)

lemma settle_other:
  assumes "m \<noteq> ''API_KEY_ERROR''" "m \<noteq> []"
  shows "submit_settle (Inl (JsError (Some m))) (submit_begin s) =
     s\<lparr>generationState := Error, error := Some m, videoUrl := None, loadingMessage := []\<rparr>"
  using assms by (simp add: submit_settle_def submit_begin_def truthy_def js_string_def)

lemma videoUrl_settle_error:
  "videoUrl (submit_settle (Inl e) (submit_begin s)) = None"
  by (simp add: submit_settle_def submit_begin_def)

lemma failed_run_exposes_nothing:
  assumes "\<not> submit_blocked s" "imageFile s = Some file"
    "generateVideoFromImage env (script s) file (aspectRatio s) = Some (log, Inl e)"
  shows "\<exists>states. handleSubmit_states env s = Some states
           \<and> (\<forall>t\<in>set (tl states). videoUrl t = None)"
proof -
  have "videoUrl (submit_begin s) = None"
    by (simp add: submit_begin_def)
  then show ?thesis
    using handleSubmit_states_run [OF assms] by (auto simp: videoUrl_settle_error)
qed

section \<open>The sample run\<close>

lemma sample_encoded: "truthy (fst (fileToGenerativePart sample_file))"
  by (simp add: fileToGenerativePart_def sample_file_def at_index_def truthy_def)

lemma sample_ready:
  "\<not> submit_blocked sample_state" "imageFile sample_state = Some sample_file"
  by (simp_all add: submit_blocked_def sample_state_def)

lemma sample_polled:
  "polled (getVideosOperation sample_env) pending_operation (Suc (Suc 0)) = Some finished_operation"
  by (simp add: sample_env_def pending_operation_def)

lemma sample_link:
  "downloadLink finished_operation = Some ''https://videos.example/1?alt=media''"
  by (simp add: downloadLink_def finished_operation_def at_index_def)

lemma sample_loop:
  "poll_loop (getVideosOperation sample_env) 0 pending_operation log_before_poll
     = Some (poll_log 2 log_before_poll, Inr finished_operation)"
  using poll_loop_exit_done [OF sample_polled, of log_before_poll]
  by (simp add: finished_operation_def numeral_2_eq_2)

lemma sample_run:
  "generateVideoFromImage sample_env (script sample_state) sample_file (aspectRatio sample_state)
     = Some (onProgress ''Finalizing video...'' (poll_log 2 log_before_poll), Inr ''blob:1'')"
proof -
  have sub: "generateVideos sample_env (video_request (script sample_state)
               (fileToGenerativePart sample_file) (aspectRatio sample_state)) = Inr pending_operation"
    by (simp add: sample_env_def)
  have loop: "poll_loop (getVideosOperation sample_env) 0 pending_operation log_before_poll
                = Some (poll_log 2 log_before_poll, Inr finished_operation)"
    using poll_loop_exit_done [OF sample_polled, of log_before_poll]
    by (simp add: finished_operation_def numeral_2_eq_2)
  have fin: "finish_operation sample_env finished_operation (poll_log 2 log_before_poll)
                = (onProgress ''Finalizing video...'' (poll_log 2 log_before_poll), Inr ''blob:1'')"
    unfolding finish_operation_def sample_link
    by (simp add: finished_operation_def sample_env_def video_response_def truthy_def)
  show ?thesis
    using generate_polls [OF sample_encoded sub] loop fin by simp
qed

section \<open>The claims\<close>

text \<open>
  C1. A status query that is rejected with a message containing
  \<^verbatim>\<open>Requested entity was not found\<close> ends the run at once: the service throws the
  \<^verbatim>\<open>API_KEY_ERROR\<close> error after exactly \<open>n + 1\<close> queries, and \<^verbatim>\<open>handleSubmit\<close> sets the
  credential flag to false and the state to \<^verbatim>\<open>selecting_key\<close>, not \<^verbatim>\<open>error\<close>.
\<close>

theorem poll_not_found_revokes_key:
  assumes "\<not> submit_blocked s" and "imageFile s = Some file"
    and "truthy (fst (fileToGenerativePart file))"
    and "generateVideos env (video_request (script s) (fileToGenerativePart file) (aspectRatio s)) = Inr op0"
    and "polled (getVideosOperation env) op0 n = Some operation"
    and "\<not> op_done operation"
    and "getVideosOperation env n operation = Inl e"
    and "message e = Some m"
    and "str_includes m ''Requested entity was not found''"
  shows "generateVideoFromImage env (script s) file (aspectRatio s)
           = Some (poll_log (Suc n) log_before_poll, Inl ApiKeyError)
       \<and> handleSubmit env s =
           Some (s\<lparr>generationState := Selecting_key,
                   error := Some ''Your API Key is invalid or missing permissions. Please select a valid key.'',
                   videoUrl := None, apiKeySelected := Some False, loadingMessage := []\<rparr>)"
proof -
  have loop: "poll_loop (getVideosOperation env) 0 op0 log_before_poll
                = Some (poll_log (Suc n) log_before_poll, Inl ApiKeyError)"
    using poll_loop_exit_raise [OF assms(5,6,7)] assms(8,9) by simp
  have gen: "generateVideoFromImage env (script s) file (aspectRatio s)
               = Some (poll_log (Suc n) log_before_poll, Inl ApiKeyError)"
    using generate_polls [OF assms(3,4)] loop by simp
  show ?thesis
    using gen handleSubmit_settled [OF assms(1,2) gen] settle_ApiKeyError by simp
qed

text \<open>C1, at a sample input.\<close>

theorem poll_not_found_revokes_key_witness:
  "handleSubmit
     (sample_env\<lparr>getVideosOperation :=
        (\<lambda>k operation. if k < 2 then Inr pending_operation else Inl not_found_error)\<rparr>)
     sample_state
   = Some (sample_state\<lparr>generationState := Selecting_key,
        error := Some ''Your API Key is invalid or missing permissions. Please select a valid key.'',
        videoUrl := None, apiKeySelected := Some False, loadingMessage := []\<rparr>)"
proof -
  let ?env = "sample_env\<lparr>getVideosOperation :=
        (\<lambda>k operation. if k < 2 then Inr pending_operation else Inl not_found_error)\<rparr>"
  have h1: "\<not> submit_blocked sample_state"
    by (simp add: submit_blocked_def sample_state_def)
  have h2: "imageFile sample_state = Some sample_file"
    by (simp add: sample_state_def)
  have h3: "truthy (fst (fileToGenerativePart sample_file))"
    by (simp add: fileToGenerativePart_def sample_file_def at_index_def truthy_def)
  have h4: "generateVideos ?env (video_request (script sample_state)
              (fileToGenerativePart sample_file) (aspectRatio sample_state)) = Inr pending_operation"
    by (simp add: sample_env_def)
  have h5: "polled (getVideosOperation ?env) pending_operation (Suc (Suc 0)) = Some pending_operation"
    by (simp add: sample_env_def pending_operation_def)
  have h6: "\<not> op_done pending_operation"
    by (simp add: pending_operation_def)
  have h7: "getVideosOperation ?env (Suc (Suc 0)) pending_operation = Inl not_found_error"
    by (simp add: sample_env_def)
  have h8: "message not_found_error = Some ''404: Requested entity was not found.''"
    by (simp add: not_found_error_def)
  have h9: "str_includes ''404: Requested entity was not found.'' ''Requested entity was not found''"
    by simp
  show ?thesis
    using poll_not_found_revokes_key [OF h1 h2 h3 h4 h5 h6 h7 h8 h9] by simp
qed

text \<open>
  C2, as stated, fails. The loop exits on a done operation that has neither an error
  payload nor a download URI, which is none of the three ways, and on a done operation
  that has both, which is two of them.
\<close>

theorem poll_three_ways_counterexample:
  "poll_loop (answers_with empty_operation) 0 pending_operation log_before_poll
     = Some (poll_log (Suc 0) log_before_poll, Inr empty_operation)
   \<and> op_done empty_operation
   \<and> op_error empty_operation = None
   \<and> downloadLink empty_operation = None
   \<and> poll_loop (answers_with conflicting_operation) 0 pending_operation log_before_poll
     = Some (poll_log (Suc 0) log_before_poll, Inr conflicting_operation)
   \<and> op_done conflicting_operation
   \<and> op_error conflicting_operation = Some (OperationError (Some ''quota exceeded''))
   \<and> downloadLink conflicting_operation = Some ''https://videos.example/1?alt=media''"
proof -
  have p1: "polled (answers_with empty_operation) pending_operation (Suc 0) = Some empty_operation"
    by (simp add: pending_operation_def answers_with_def)
  have d1: "op_done empty_operation"
    by (simp add: empty_operation_def)
  have p2: "polled (answers_with conflicting_operation) pending_operation (Suc 0)
              = Some conflicting_operation"
    by (simp add: pending_operation_def answers_with_def)
  have d2: "op_done conflicting_operation"
    by (simp add: conflicting_operation_def)
  have rest: "op_error empty_operation = None" "downloadLink empty_operation = None"
    "op_error conflicting_operation = Some (OperationError (Some ''quota exceeded''))"
    "downloadLink conflicting_operation = Some ''https://videos.example/1?alt=media''"
    by (simp_all add: empty_operation_def conflicting_operation_def downloadLink_def at_index_def)
  show ?thesis
    using poll_loop_exit_done [OF p1 d1, of log_before_poll]
      poll_loop_exit_done [OF p2 d2, of log_before_poll] d1 d2 rest
    by simp
qed

text \<open>
  C2, as amended. If the handle the loop holds at query \<open>n\<close> is done, or query \<open>n\<close> is
  rejected, the loop returns, and what it returns is fixed by which of the two happened.
  On a done handle it returns that handle after \<open>n\<close> rounds of a 10 second wait and one
  query each, whatever the handle carries (a result, an error payload, both or neither).
  On a rejected query it raises after \<open>n + 1\<close> rounds: the \<^verbatim>\<open>API_KEY_ERROR\<close> error when the
  rejection's message contains \<^verbatim>\<open>Requested entity was not found\<close>, the rejection itself
  otherwise.
\<close>

theorem poll_loop_exit_by_cause:
  assumes "polled query op0 n = Some operation"
    and "op_done operation \<or> query n operation = Inl e"
  shows "poll_loop query 0 op0 log =
     Some (if op_done operation then (poll_log n log, Inr operation)
           else (poll_log (Suc n) log,
                 Inl (if (case message e of None \<Rightarrow> False
                          | Some m \<Rightarrow> str_includes m ''Requested entity was not found'')
                      then ApiKeyError else e)))"
proof (cases "op_done operation")
  case True
  then show ?thesis
    using poll_loop_exit_done [OF assms(1) True, of log] by simp
next
  case False
  with assms(2) have e: "query n operation = Inl e" by simp
  show ?thesis
    using poll_loop_exit_raise [OF assms(1) False e, of log] False by simp
qed

text \<open>C2, at two sample inputs: a remote that finishes and a remote that rejects a query.\<close>

theorem poll_loop_exit_by_cause_witness:
  "poll_loop (getVideosOperation sample_env) 0 pending_operation log_before_poll
     = Some (poll_log (Suc (Suc 0)) log_before_poll, Inr finished_operation)
   \<and> poll_loop (\<lambda>k operation. if k < 2 then Inr pending_operation else Inl (JsError (Some ''timeout'')))
        0 pending_operation log_before_poll
     = Some (poll_log (Suc (Suc (Suc 0))) log_before_poll, Inl (JsError (Some ''timeout'')))"
proof -
  let ?q = "\<lambda>k (operation::Operation). if k < (2::nat) then Inr pending_operation
              else (Inl (JsError (Some ''timeout'')) :: JsError + Operation)"
  have d: "op_done finished_operation"
    by (simp add: finished_operation_def)
  then have h2: "op_done finished_operation
      \<or> getVideosOperation sample_env (Suc (Suc 0)) finished_operation = Inl (JsError None)"
    by simp
  have p: "polled ?q pending_operation (Suc (Suc 0)) = Some pending_operation"
    by (simp add: pending_operation_def)
  have nd: "\<not> op_done pending_operation"
    by (simp add: pending_operation_def)
  have h4: "op_done pending_operation \<or> ?q (Suc (Suc 0)) pending_operation = Inl (JsError (Some ''timeout''))"
    by simp
  show ?thesis
    using poll_loop_exit_by_cause [OF sample_polled h2, of log_before_poll]
      poll_loop_exit_by_cause [OF p h4, of log_before_poll] d nd
    by simp
qed

text \<open>
  C3, as stated, fails: in a successful run that polls twice the states, repetitions
  dropped, are idle, loading, success; \<^verbatim>\<open>polling\<close> is not among them.
\<close>

theorem polling_state_counterexample:
  "map_option (remdups_adj \<circ> map generationState) (handleSubmit_states sample_env sample_state)
     = Some [Idle, Loading, Success]
   \<and> map_option (remdups_adj \<circ> map generationState) (handleSubmit_states sample_env sample_state)
     \<noteq> Some [Idle, Loading, Polling, Success]"
  using handleSubmit_states_run [OF sample_ready sample_run]
  by (simp add: submit_begin_def generationState_settle onProgress_def poll_log_def
        log_before_poll_def sample_state_def numeral_2_eq_2)

text \<open>
  C3, as amended. A run that returns takes \<^verbatim>\<open>generationState\<close> from its value at the
  click to \<^verbatim>\<open>loading\<close>, keeps it there while the service reports its progress labels
  (the poll phase included), and ends in \<^verbatim>\<open>success\<close> on a result, in
  \<^verbatim>\<open>selecting_key\<close> on the \<^verbatim>\<open>API_KEY_ERROR\<close> error and in \<^verbatim>\<open>error\<close> on any other
  failure. No state after the click is \<^verbatim>\<open>polling\<close>: nothing in the component or the
  service sets it.
\<close>

theorem submit_states_never_polling:
  assumes "\<not> submit_blocked s" and "imageFile s = Some file"
    and "generateVideoFromImage env (script s) file (aspectRatio s) = Some (log, r)"
  shows "\<exists>states. handleSubmit_states env s = Some states
       \<and> map generationState states =
           generationState s # replicate (Suc (length (fst log))) Loading
           @ [case r of Inr url \<Rightarrow> Success
              | Inl e \<Rightarrow> if message e = Some ''API_KEY_ERROR'' then Selecting_key else Error]
       \<and> Polling \<notin> set (map generationState (tl states))"
proof -
  let ?states = "s # submit_begin s # map (\<lambda>m. (submit_begin s)\<lparr>loadingMessage := m\<rparr>) (fst log)
           @ [submit_settle r (submit_begin s)]"
  have run: "handleSubmit_states env s = Some ?states"
    using handleSubmit_states_run [OF assms] .
  have mid: "map (generationState \<circ> (\<lambda>m. (submit_begin s)\<lparr>loadingMessage := m\<rparr>)) (fst log)
               = replicate (length (fst log)) Loading"
    by (simp add: map_replicate_const submit_begin_def comp_def)
  have seq: "map generationState ?states =
           generationState s # replicate (Suc (length (fst log))) Loading
           @ [case r of Inr url \<Rightarrow> Success
              | Inl e \<Rightarrow> if message e = Some ''API_KEY_ERROR'' then Selecting_key else Error]"
    using mid by (simp add: generationState_settle submit_begin_def)
  have np: "Polling \<notin> set (map generationState (tl ?states))"
    using mid by (auto simp: generationState_settle submit_begin_def split: sum.splits)
  show ?thesis
    by (rule exI [of _ ?states]) (rule conjI run seq np)+
qed

text \<open>C3, at a sample input.\<close>

theorem submit_states_never_polling_witness:
  "\<not> submit_blocked sample_state
   \<and> (\<exists>states. handleSubmit_states sample_env sample_state = Some states
        \<and> map generationState states =
            [Idle, Loading, Loading, Loading, Loading, Loading, Loading, Loading, Success]
        \<and> Polling \<notin> set (map generationState (tl states)))"
  using sample_ready(1) submit_states_never_polling [OF sample_ready sample_run]
  by (simp add: onProgress_def poll_log_def log_before_poll_def sample_state_def
        numeral_2_eq_2)

text \<open>
  C4. When the download answers with a response that is not ok, whatever its status: if
  the body contains \<^verbatim>\<open>API key not valid\<close> the service throws the \<^verbatim>\<open>API_KEY_ERROR\<close>
  error, otherwise it throws an error whose message is \<^verbatim>\<open>Failed to download video: \<close>
  followed by the response's status text.
\<close>

theorem download_failure_errors:
  assumes "truthy (fst (fileToGenerativePart file))"
    and "generateVideos env (video_request prompt (fileToGenerativePart file) ratio) = Inr op0"
    and "poll_loop (getVideosOperation env) 0 op0 log_before_poll = Some (log, Inr operation)"
    and "op_error operation = None"
    and "downloadLink operation = Some link" and "link \<noteq> []"
    and "fetch env (link @ ''&key='' @ js_string (api_key env)) = Inr response"
    and "\<not> resp_ok response"
  shows "(str_includes (resp_text response) ''API key not valid'' \<longrightarrow>
           generateVideoFromImage env prompt file ratio
             = Some (onProgress ''Finalizing video...'' log, Inl (JsError (Some ''API_KEY_ERROR''))))
       \<and> (\<not> str_includes (resp_text response) ''API key not valid'' \<longrightarrow>
           generateVideoFromImage env prompt file ratio
             = Some (onProgress ''Finalizing video...'' log,
                     Inl (JsError (Some (''Failed to download video: '' @ resp_statusText response)))))"
proof -
  have "finish_operation env operation log =
      (onProgress ''Finalizing video...'' log,
       Inl (if str_includes (resp_text response) ''API key not valid''
            then ApiKeyError else DownloadError (resp_statusText response)))"
    using assms(4-8) by (simp add: finish_operation_def truthy_def js_string_def)
  then show ?thesis
    using generate_polls [OF assms(1,2)] assms(3)
    by (simp add: ApiKeyError_def DownloadError_def)
qed

text \<open>C4, at a sample input.\<close>

theorem download_failure_errors_witness:
  "generateVideoFromImage (sample_env\<lparr>fetch := (\<lambda>url. Inr invalid_key_response)\<rparr>)
      ''a cat'' sample_file Landscape_16_9
     = Some (onProgress ''Finalizing video...'' (poll_log 2 log_before_poll),
             Inl (JsError (Some ''API_KEY_ERROR'')))
   \<and> generateVideoFromImage (sample_env\<lparr>fetch := (\<lambda>url. Inr forbidden_response)\<rparr>)
      ''a cat'' sample_file Landscape_16_9
     = Some (onProgress ''Finalizing video...'' (poll_log 2 log_before_poll),
             Inl (JsError (Some ''Failed to download video: Forbidden'')))"
proof -
  let ?bad = "sample_env\<lparr>fetch := (\<lambda>url. Inr invalid_key_response)\<rparr>"
  let ?forbidden = "sample_env\<lparr>fetch := (\<lambda>url. Inr forbidden_response)\<rparr>"
  have sub: "generateVideos (sample_env\<lparr>fetch := f\<rparr>) (video_request ''a cat''
      (fileToGenerativePart sample_file) Landscape_16_9) = Inr pending_operation" for f
    by (simp add: sample_env_def)
  have loop: "poll_loop (getVideosOperation (sample_env\<lparr>fetch := f\<rparr>)) 0 pending_operation
      log_before_poll = Some (poll_log 2 log_before_poll, Inr finished_operation)" for f
    using sample_loop by simp
  have noerr: "op_error finished_operation = None"
    by (simp add: finished_operation_def)
  have link: "''https://videos.example/1?alt=media'' \<noteq> []"
    by simp
  have f1: "fetch ?bad (''https://videos.example/1?alt=media'' @ ''&key='' @ js_string (api_key ?bad))
      = Inr invalid_key_response"
    by simp
  have f2: "fetch ?forbidden (''https://videos.example/1?alt=media'' @ ''&key='' @ js_string (api_key ?forbidden))
      = Inr forbidden_response"
    by simp
  have n1: "\<not> resp_ok invalid_key_response" and n2: "\<not> resp_ok forbidden_response"
    by (simp_all add: invalid_key_response_def forbidden_response_def)
  have b1: "str_includes (resp_text invalid_key_response) ''API key not valid''"
    by (simp add: invalid_key_response_def)
  have b2: "\<not> str_includes (resp_text forbidden_response) ''API key not valid''"
    by (simp add: forbidden_response_def)
  have st: "resp_statusText forbidden_response = ''Forbidden''"
    by (simp add: forbidden_response_def)
  show ?thesis
    using download_failure_errors [OF sample_encoded sub loop noerr sample_link link f1 n1]
      download_failure_errors [OF sample_encoded sub loop noerr sample_link link f2 n2]
      b1 b2 st
    by simp
qed

text \<open>
  C5. A submission with no image, an empty script or a credential flag that is not true
  leaves every state variable as it was and never reaches the service (the result is
  the same for every environment), and the trigger cannot be activated: its
  \<^verbatim>\<open>disabled\<close> attribute is set when the image or the script is missing, and the form
  that contains it is not rendered when the credential flag is not true.
\<close>

theorem blocked_submit_does_nothing:
  assumes "imageFile s = None \<or> script s = [] \<or> apiKeySelected s \<noteq> Some True"
  shows "handleSubmit_states env s = Some [s]
       \<and> handleSubmit env s = Some s
       \<and> \<not> submit_enabled s
       \<and> (imageFile s = None \<or> script s = [] \<longrightarrow> submit_disabled s)
       \<and> (apiKeySelected s \<noteq> Some True \<longrightarrow> \<not> form_rendered s)"
  using assms
  by (auto simp: handleSubmit_def handleSubmit_states_def submit_blocked_def submit_enabled_def
        submit_disabled_def form_rendered_def)

text \<open>C5, at a sample input.\<close>

theorem blocked_submit_does_nothing_witness:
  "script (handleImageChange (Some sample_file) (checkApiKey sample_env initial_state)) = []
   \<and> handleSubmit sample_env (handleImageChange (Some sample_file) (checkApiKey sample_env initial_state))
       = Some (handleImageChange (Some sample_file) (checkApiKey sample_env initial_state))
   \<and> submit_disabled (handleImageChange (Some sample_file) (checkApiKey sample_env initial_state))"
proof -
  let ?s = "handleImageChange (Some sample_file) (checkApiKey sample_env initial_state)"
  have empty: "script ?s = []"
    by (simp add: handleImageChange_def checkApiKey_def sample_env_def initial_state_def)
  then have h: "imageFile ?s = None \<or> script ?s = [] \<or> apiKeySelected ?s \<noteq> Some True"
    by simp
  show ?thesis
    using empty blocked_submit_does_nothing [OF h, of sample_env] by simp
qed

text \<open>
  C6. \<^verbatim>\<open>resetState\<close> from \<^verbatim>\<open>success\<close> or \<^verbatim>\<open>error\<close> clears the image file, the
  preview, the script, the video URL and the error message, leaves the credential flag
  as it was, and sets the state to \<^verbatim>\<open>idle\<close> when the flag is true and to
  \<^verbatim>\<open>selecting_key\<close> otherwise.
\<close>

theorem reset_clears_inputs:
  assumes "generationState s = Success \<or> generationState s = Error"
  shows "imageFile (resetState s) = None
       \<and> imagePreview (resetState s) = None
       \<and> script (resetState s) = []
       \<and> videoUrl (resetState s) = None
       \<and> error (resetState s) = None
       \<and> apiKeySelected (resetState s) = apiKeySelected s
       \<and> (apiKeySelected s = Some True \<longrightarrow> generationState (resetState s) = Idle)
       \<and> (apiKeySelected s \<noteq> Some True \<longrightarrow> generationState (resetState s) = Selecting_key)"
  by (simp add: resetState_def)

text \<open>C6, at a sample input.\<close>

theorem reset_clears_inputs_witness:
  "generationState (sample_state\<lparr>generationState := Success, videoUrl := Some ''blob:1''\<rparr>) = Success
   \<and> resetState (sample_state\<lparr>generationState := Success, videoUrl := Some ''blob:1''\<rparr>)
       = initial_state\<lparr>aspectRatio := Portrait_9_16, apiKeySelected := Some True\<rparr>"
proof -
  let ?s = "sample_state\<lparr>generationState := Success, videoUrl := Some ''blob:1''\<rparr>"
  have h: "generationState ?s = Success \<or> generationState ?s = Error"
    by simp
  have rest: "aspectRatio (resetState ?s) = Portrait_9_16" "loadingMessage (resetState ?s) = []"
    "apiKeySelected ?s = Some True"
    by (simp_all add: resetState_def sample_state_def)
  show ?thesis
    using reset_clears_inputs [OF h] rest by (simp add: initial_state_def)
qed

text \<open>
  C7. When the loop exits on an operation with an error payload, that operation is done,
  the service throws an error whose message is \<^verbatim>\<open>Video generation failed: \<close> followed by
  the payload's message, the component ends in \<^verbatim>\<open>error\<close> with that message, and no
  state of the run after the click holds a video URL.
\<close>

theorem operation_error_fails_generation:
  assumes "\<not> submit_blocked s" and "imageFile s = Some file"
    and "truthy (fst (fileToGenerativePart file))"
    and "generateVideos env (video_request (script s) (fileToGenerativePart file) (aspectRatio s)) = Inr op0"
    and "poll_loop (getVideosOperation env) 0 op0 log_before_poll = Some (log, Inr operation)"
    and "op_error operation = Some payload"
  shows "op_done operation
       \<and> generateVideoFromImage env (script s) file (aspectRatio s)
           = Some (log, Inl (JsError (Some (''Video generation failed: '' @ js_string (error_message payload)))))
       \<and> handleSubmit env s =
           Some (s\<lparr>generationState := Error,
                   error := Some (''Video generation failed: '' @ js_string (error_message payload)),
                   videoUrl := None, loadingMessage := []\<rparr>)
       \<and> (\<exists>states. handleSubmit_states env s = Some states
            \<and> (\<forall>t\<in>set (tl states). videoUrl t = None))"
proof -
  let ?m = "''Video generation failed: '' @ js_string (error_message payload)"
  have dn: "op_done operation"
    using poll_loop_returns_done [OF assms(5)] .
  have "finish_operation env operation log = (log, Inl (JsError (Some ?m)))"
    using assms(6) by (simp add: finish_operation_def GenerationError_def)
  then have gen: "generateVideoFromImage env (script s) file (aspectRatio s)
                    = Some (log, Inl (JsError (Some ?m)))"
    using generate_polls [OF assms(3,4)] assms(5) by simp
  have m: "?m \<noteq> ''API_KEY_ERROR''" "?m \<noteq> []"
    by simp_all
  have fin: "handleSubmit env s =
           Some (s\<lparr>generationState := Error, error := Some ?m,
                   videoUrl := None, loadingMessage := []\<rparr>)"
    using handleSubmit_settled [OF assms(1,2) gen] settle_other [OF m] by simp
  show ?thesis
    using dn gen fin failed_run_exposes_nothing [OF assms(1,2) gen] by simp
qed

text \<open>C7, at a sample input.\<close>

theorem operation_error_fails_generation_witness:
  "handleSubmit (sample_env\<lparr>getVideosOperation := (\<lambda>k operation. Inr failed_operation)\<rparr>) sample_state
     = Some (sample_state\<lparr>generationState := Error,
               error := Some ''Video generation failed: quota exceeded'',
               videoUrl := None, loadingMessage := []\<rparr>)"
proof -
  let ?env = "sample_env\<lparr>getVideosOperation := (\<lambda>k operation. Inr failed_operation)\<rparr>"
  have sub: "generateVideos ?env (video_request (script sample_state)
               (fileToGenerativePart sample_file) (aspectRatio sample_state)) = Inr pending_operation"
    by (simp add: sample_env_def)
  have pl: "polled (getVideosOperation ?env) pending_operation (Suc 0) = Some failed_operation"
    by (simp add: pending_operation_def)
  have dn: "op_done failed_operation"
    by (simp add: failed_operation_def)
  have loop: "poll_loop (getVideosOperation ?env) 0 pending_operation log_before_poll
                = Some (poll_log (Suc 0) log_before_poll, Inr failed_operation)"
    using poll_loop_exit_done [OF pl dn] .
  have err: "op_error failed_operation = Some (OperationError (Some ''quota exceeded''))"
    by (simp add: failed_operation_def)
  show ?thesis
    using operation_error_fails_generation [OF sample_ready sample_encoded sub loop err]
    by (simp add: js_string_def)
qed

text \<open>
  C8. When the loop exits on an operation with no error payload and no download URI
  (undefined or empty), the service throws the error
  \<^verbatim>\<open>Could not retrieve video download link.\<close> and the component ends in \<^verbatim>\<open>error\<close>
  showing that message.
\<close>

theorem missing_link_fails:
  assumes "\<not> submit_blocked s" and "imageFile s = Some file"
    and "truthy (fst (fileToGenerativePart file))"
    and "generateVideos env (video_request (script s) (fileToGenerativePart file) (aspectRatio s)) = Inr op0"
    and "poll_loop (getVideosOperation env) 0 op0 log_before_poll = Some (log, Inr operation)"
    and "op_error operation = None"
    and "downloadLink operation = None \<or> downloadLink operation = Some []"
  shows "generateVideoFromImage env (script s) file (aspectRatio s)
           = Some (onProgress ''Finalizing video...'' log,
                   Inl (JsError (Some ''Could not retrieve video download link.'')))
       \<and> handleSubmit env s =
           Some (s\<lparr>generationState := Error,
                   error := Some ''Could not retrieve video download link.'',
                   videoUrl := None, loadingMessage := []\<rparr>)"
proof -
  let ?m = "''Could not retrieve video download link.''"
  have "\<not> truthy (downloadLink operation)"
    using assms(7) by (auto simp: truthy_def)
  then have "finish_operation env operation log
      = (onProgress ''Finalizing video...'' log, Inl (JsError (Some ?m)))"
    using assms(6) by (simp add: finish_operation_def MissingResultError_def)
  then have gen: "generateVideoFromImage env (script s) file (aspectRatio s)
                    = Some (onProgress ''Finalizing video...'' log, Inl (JsError (Some ?m)))"
    using generate_polls [OF assms(3,4)] assms(5) by simp
  have m: "?m \<noteq> ''API_KEY_ERROR''" "?m \<noteq> []"
    by simp_all
  show ?thesis
    using gen handleSubmit_settled [OF assms(1,2) gen] settle_other [OF m] by simp
qed

text \<open>C8, at a sample input.\<close>

theorem missing_link_fails_witness:
  "handleSubmit (sample_env\<lparr>getVideosOperation := (\<lambda>k operation. Inr empty_operation)\<rparr>) sample_state
     = Some (sample_state\<lparr>generationState := Error,
               error := Some ''Could not retrieve video download link.'',
               videoUrl := None, loadingMessage := []\<rparr>)"
proof -
  let ?env = "sample_env\<lparr>getVideosOperation := (\<lambda>k operation. Inr empty_operation)\<rparr>"
  have sub: "generateVideos ?env (video_request (script sample_state)
               (fileToGenerativePart sample_file) (aspectRatio sample_state)) = Inr pending_operation"
    by (simp add: sample_env_def)
  have pl: "polled (getVideosOperation ?env) pending_operation (Suc 0) = Some empty_operation"
    by (simp add: pending_operation_def)
  have dn: "op_done empty_operation"
    by (simp add: empty_operation_def)
  have loop: "poll_loop (getVideosOperation ?env) 0 pending_operation log_before_poll
                = Some (poll_log (Suc 0) log_before_poll, Inr empty_operation)"
    using poll_loop_exit_done [OF pl dn] .
  have noerr: "op_error empty_operation = None"
    by (simp add: empty_operation_def)
  have nolink: "downloadLink empty_operation = None \<or> downloadLink empty_operation = Some []"
    by (simp add: downloadLink_def empty_operation_def at_index_def)
  show ?thesis
    using missing_link_fails [OF sample_ready sample_encoded sub loop noerr nolink]
    by simp
qed

text \<open>
  C9. \<^verbatim>\<open>resetState\<close> leaves the aspect ratio as it was, in every state; a portrait
  selection survives the reset and is not put back to the initial 16:9.
\<close>

theorem reset_keeps_aspectRatio:
  "aspectRatio (resetState s) = aspectRatio s
   \<and> aspectRatio (resetState (setAspectRatio Portrait_9_16 s)) = Portrait_9_16
   \<and> aspectRatio initial_state = Landscape_16_9"
  by (simp add: resetState_def setAspectRatio_def initial_state_def)

text \<open>
  C10. When \<^verbatim>\<open>openSelectKey\<close> resolves, \<^verbatim>\<open>handleSelectKey\<close> sets the credential flag
  to true and the state to \<^verbatim>\<open>idle\<close>, whatever \<^verbatim>\<open>hasSelectedApiKey\<close> would answer: it
  is not asked.
\<close>

theorem key_selected_without_recheck:
  assumes "openSelectKey env = Inr u"
  shows "handleSelectKey (env\<lparr>hasSelectedApiKey := h\<rparr>) s
           = s\<lparr>apiKeySelected := Some True, generationState := Idle\<rparr>"
  using assms by (simp add: handleSelectKey_def onKeySelected_def)

text \<open>C10, at a sample input.\<close>

theorem key_selected_without_recheck_witness:
  "openSelectKey sample_env = Inr ()
   \<and> handleSelectKey (sample_env\<lparr>hasSelectedApiKey := Inr False\<rparr>)
        (checkApiKey (sample_env\<lparr>hasSelectedApiKey := Inr False\<rparr>) initial_state)
       = initial_state\<lparr>apiKeySelected := Some True, generationState := Idle\<rparr>"
proof -
  have h: "openSelectKey sample_env = Inr ()"
    by (simp add: sample_env_def)
  show ?thesis
    using h key_selected_without_recheck [OF h, of "Inr False"
        "checkApiKey (sample_env\<lparr>hasSelectedApiKey := Inr False\<rparr>) initial_state"]
    by (simp add: checkApiKey_def)
qed

end
